theory Spec2Isabelle
  imports Main "HOL-Library.AList"
begin

section \<open>Strings as Python uses them in deploy.py\<close>

text \<open>
  A Python \<open>str\<close> is modelled as a \<open>string\<close> whose characters are the code points
  0..255. The helpers below are the built-ins the script relies on:
  \<open>needle in haystack\<close>, \<open>str.strip()\<close>, \<open>str.lower()\<close> and the format
  specification \<open>{key:30s}\<close>.
\<close>

fun starts_with :: "string \<Rightarrow> string \<Rightarrow> bool" where
  "starts_with [] hay = True"
| "starts_with (n # ns) [] = False"
| "starts_with (n # ns) (h # hs) = (n = h \<and> starts_with ns hs)"

fun contains :: "string \<Rightarrow> string \<Rightarrow> bool" where
  "contains needle [] = (needle = [])"
| "contains needle (h # hs) = (starts_with needle (h # hs) \<or> contains needle hs)"

definition py_isspace :: "char \<Rightarrow> bool" where
  "py_isspace c =
     (c \<in> set [CHR 0x09, CHR 0x0A, CHR 0x0B, CHR 0x0C, CHR 0x0D,
               CHR 0x1C, CHR 0x1D, CHR 0x1E, CHR 0x1F, CHR 0x20, CHR 0x85, CHR 0xA0])"

definition py_strip :: "string \<Rightarrow> string" where
  "py_strip s = rev (dropWhile py_isspace (rev (dropWhile py_isspace s)))"

definition py_lower_char :: "char \<Rightarrow> char" where
  "py_lower_char c =
     (let n = (of_char c :: nat)
      in if (65 \<le> n \<and> n \<le> 90) \<or> (192 \<le> n \<and> n \<le> 222 \<and> n \<noteq> 215)
         then char_of (n + 32) else c)"

definition py_lower :: "string \<Rightarrow> string" where
  "py_lower s = map py_lower_char s"

definition ljust :: "nat \<Rightarrow> string \<Rightarrow> string" where
  "ljust w s = s @ replicate (w - length s) (CHR '' '')"

definition apos :: string where
  "apos = [CHR 0x27]"

definition newline :: string where
  "newline = [CHR 0x0A]"

definition em_dash :: string where
  \<comment> \<open>U+2014 as the bytes standard output receives in UTF-8\<close>
  "em_dash = [CHR 0xE2, CHR 0x80, CHR 0x94]"

section \<open>Exceptions, remote data, observable events\<close>

text \<open>
  Two kinds of exception matter to the handlers of the script: botocore's
  \<open>ClientError\<close> (caught by \<open>except ClientError\<close> and by \<open>except Exception\<close>) and any
  other subclass of \<open>Exception\<close> (caught by \<open>except Exception\<close> only). Each carries
  the text \<open>str(e)\<close>. \<open>sys.exit\<close> is an outcome of a command, not an exception value,
  since no handler of the script can see it.
\<close>

datatype exn = ClientError string | OtherException string

fun str_exn :: "exn \<Rightarrow> string" where
  "str_exn (ClientError m) = m"
| "str_exn (OtherException m) = m"

datatype outcome = Returned | SysExit nat | Raised exn

fun exit_code :: "outcome \<Rightarrow> nat" where
  "exit_code Returned = 0"
| "exit_code (SysExit n) = n"
| "exit_code (Raised e) = 1"

record stack =
  StackName :: string
  StackStatus :: string
  StackStatusReason :: "string option"
  Outputs :: "(string \<times> string) list option"

type_synonym params = "(string \<times> string) list"

datatype api =
    GetCallerIdentity
  | HeadBucket string
  | CreateBucket string "string option"
  | ReadFile string
  | PutObject string string string
  | DescribeStacks string
  | UpdateStack string string params "string list"
  | CreateStack string string params "string list"
  | DeleteStack string
  | Sleep nat
  | Input string
  | S3Resource
  | ObjectsDelete string
  | AthenaClient
  | DeleteWorkGroup string bool

datatype event = Print string | Call api

datatype waiter_state = WSuccess | WFailure | WRetry

text \<open>
  The configuration constants at the top of deploy.py, as a value passed to every
  function, and the constants the file ships with.
\<close>

record config =
  STACK_NAME :: string
  TEMPLATE_FILE :: string
  REGION :: string
  PARAMETERS :: params
  S3_BUCKET_NAME :: string
  CAPABILITIES :: "string list"

definition source_config :: config where
  "source_config = \<lparr>
     STACK_NAME = ''gsi-export-test'',
     TEMPLATE_FILE = ''dynamo-gsi-scheduled-export.yaml'',
     REGION = ''us-east-1'',
     PARAMETERS = [
       (''DynamoTableName'', ''ConnectViewDataTest''),
       (''GsiName'', ''Channel-InitiationTimestamp-index''),
       (''GsiPartitionKeyAttribute'', ''Channel''),
       (''GsiPartitionKeyValue'', ''CHAT''),
       (''GsiSortKeyAttribute'', ''InitiationTimestamp''),
       (''DateFormat'', ''ISO''),
       (''S3DataPrefix'', ''exports''),
       (''CronExpression'', ''rate(1 day)''),
       (''DateRangeMode'', ''PREVIOUS_DAY''),
       (''CreateTable'', ''true''),
       (''TablePKName'', ''ContactId''),
       (''TablePKType'', ''S''),
       (''BillingMode'', ''PAY_PER_REQUEST''),
       (''ExtraDateColumn'', ''report_date'')],
     S3_BUCKET_NAME = '''',
     CAPABILITIES = [''CAPABILITY_NAMED_IAM''] \<rparr>"

text \<open>
  The remote services (STS, S3, CloudFormation, Athena), the template file and the
  terminal are the environment: a world of type \<open>'w\<close> and one function per operation
  the script calls, returning the response or the exception raised, and the next world.
  Nothing is assumed about them, so a statement proved for every environment holds
  whatever the services answer.

  \<open>acceptor\<close> is the waiter's table: how a poll's response is classified for the
  named waiter. \<open>default_region\<close> is the region boto3 falls back on when \<open>REGION\<close>
  is empty.
\<close>

record 'w env =
  get_caller_identity :: "'w \<Rightarrow> (exn + string) \<times> 'w"
  head_bucket :: "string \<Rightarrow> 'w \<Rightarrow> (exn + unit) \<times> 'w"
  create_bucket :: "string \<Rightarrow> string option \<Rightarrow> 'w \<Rightarrow> (exn + unit) \<times> 'w"
  read_file :: "string \<Rightarrow> 'w \<Rightarrow> (exn + string) \<times> 'w"
  put_object :: "string \<Rightarrow> string \<Rightarrow> string \<Rightarrow> 'w \<Rightarrow> (exn + unit) \<times> 'w"
  describe_stacks :: "string \<Rightarrow> 'w \<Rightarrow> (exn + stack) \<times> 'w"
  update_stack :: "string \<Rightarrow> string \<Rightarrow> params \<Rightarrow> string list \<Rightarrow> 'w \<Rightarrow> (exn + unit) \<times> 'w"
  create_stack :: "string \<Rightarrow> string \<Rightarrow> params \<Rightarrow> string list \<Rightarrow> 'w \<Rightarrow> (exn + unit) \<times> 'w"
  delete_stack :: "string \<Rightarrow> 'w \<Rightarrow> (exn + unit) \<times> 'w"
  acceptor :: "string \<Rightarrow> exn + stack \<Rightarrow> waiter_state"
  input_line :: "string \<Rightarrow> 'w \<Rightarrow> (exn + string) \<times> 'w"
  s3_resource :: "'w \<Rightarrow> (exn + unit) \<times> 'w"
  objects_delete :: "string \<Rightarrow> 'w \<Rightarrow> (exn + unit) \<times> 'w"
  athena_client :: "'w \<Rightarrow> (exn + unit) \<times> 'w"
  delete_work_group :: "string \<Rightarrow> bool \<Rightarrow> 'w \<Rightarrow> (exn + unit) \<times> 'w"
  default_region :: "string option"

text \<open>
  The state a command threads: the world and everything observable it has done so far,
  in order (lines printed and calls issued).
\<close>

type_synonym 'w st = "'w \<times> event list"

definition print :: "string \<Rightarrow> 'w st \<Rightarrow> 'w st" where
  "print line s = (fst s, snd s @ [Print line])"

definition call :: "api \<Rightarrow> ('w \<Rightarrow> 'a \<times> 'w) \<Rightarrow> 'w st \<Rightarrow> 'a \<times> 'w st" where
  "call a f s = (case f (fst s) of (r, w') \<Rightarrow> (r, (w', snd s @ [Call a])))"

section \<open>Helpers\<close>

definition get_account_id :: "'w env \<Rightarrow> 'w st \<Rightarrow> (exn + string) \<times> 'w st" where
  "get_account_id env s = call GetCallerIdentity (get_caller_identity env) s"

definition get_staging_bucket :: "'w env \<Rightarrow> 'w st \<Rightarrow> (exn + string) \<times> 'w st" where
  "get_staging_bucket env s =
     (case get_account_id env s of
        (Inl e, s1) \<Rightarrow> (Inl e, s1)
      | (Inr account, s1) \<Rightarrow> (Inr (''cfn-templates-'' @ account), s1))"

definition s3_region_name :: "config \<Rightarrow> 'w env \<Rightarrow> string option" where
  "s3_region_name cfg env = (if REGION cfg \<noteq> [] then Some (REGION cfg) else default_region env)"

definition ensure_staging_bucket ::
  "config \<Rightarrow> 'w env \<Rightarrow> string \<Rightarrow> 'w st \<Rightarrow> (exn + unit) \<times> 'w st" where
  "ensure_staging_bucket cfg env bucket s =
     (case call (HeadBucket bucket) (head_bucket env bucket) s of
        (Inr u, s1) \<Rightarrow> (Inr (), print (''  Staging bucket exists: '' @ bucket) s1)
      | (Inl (ClientError m), s1) \<Rightarrow>
          (let s2 = print (''  Creating staging bucket: '' @ bucket) s1;
               region = s3_region_name cfg env;
               location = (case region of
                             None \<Rightarrow> None
                           | Some r \<Rightarrow> if r \<noteq> [] \<and> r \<noteq> ''us-east-1'' then Some r else None)
           in call (CreateBucket bucket location) (create_bucket env bucket location) s2)
      | (Inl (OtherException m), s1) \<Rightarrow> (Inl (OtherException m), s1))"

definition upload_template ::
  "config \<Rightarrow> 'w env \<Rightarrow> string \<Rightarrow> 'w st \<Rightarrow> (exn + string) \<times> 'w st" where
  "upload_template cfg env bucket s =
     (let key = STACK_NAME cfg @ ''/template.yaml'';
          s1 = print (''  Uploading template to s3://'' @ bucket @ ''/'' @ key) s
      in case call (ReadFile (TEMPLATE_FILE cfg)) (read_file env (TEMPLATE_FILE cfg)) s1 of
           (Inl e, s2) \<Rightarrow> (Inl e, s2)
         | (Inr body, s2) \<Rightarrow>
             (case call (PutObject bucket key body) (put_object env bucket key body) s2 of
                (Inl e, s3) \<Rightarrow> (Inl e, s3)
              | (Inr u, s3) \<Rightarrow>
                  (Inr (''https://'' @ bucket @ ''.s3.amazonaws.com/'' @ key), s3)))"

definition build_params :: "config \<Rightarrow> 'w env \<Rightarrow> 'w st \<Rightarrow> (exn + params) \<times> 'w st" where
  "build_params cfg env s =
     (if S3_BUCKET_NAME cfg \<noteq> []
      then (Inr (AList.update ''S3BucketName'' (S3_BUCKET_NAME cfg) (PARAMETERS cfg)), s)
      else (case get_account_id env s of
              (Inl e, s1) \<Rightarrow> (Inl e, s1)
            | (Inr account, s1) \<Rightarrow>
                (Inr (AList.update ''S3BucketName'' (STACK_NAME cfg @ ''-'' @ account)
                        (PARAMETERS cfg)), s1)))"

definition stack_exists :: "config \<Rightarrow> 'w env \<Rightarrow> 'w st \<Rightarrow> (exn + bool) \<times> 'w st" where
  "stack_exists cfg env s =
     (case call (DescribeStacks (STACK_NAME cfg)) (describe_stacks env (STACK_NAME cfg)) s of
        (Inr stk, s1) \<Rightarrow> (Inr (StackStatus stk \<notin> set [''DELETE_COMPLETE'']), s1)
      | (Inl (ClientError m), s1) \<Rightarrow>
          (if contains ''does not exist'' m then (Inr False, s1)
           else (Inl (ClientError m), s1))
      | (Inl (OtherException m), s1) \<Rightarrow> (Inl (OtherException m), s1))"

text \<open>
  Modelled from the spec: the waiter of the provisioning SDK (\<open>cfn.get_waiter(..).wait\<close>),
  which is library code outside the repository. The spec describes it as a blocking
  wait-for-terminal-status primitive parameterized by poll delay and maximum attempts:
  it polls the stack's description, stops at a terminal classification, sleeps the fixed
  delay between polls and raises once the attempts are used up. \<open>n\<close> counts the
  attempts still allowed, this one included.
\<close>

definition waiter_error :: "string \<Rightarrow> string \<Rightarrow> exn" where
  "waiter_error waiter_name reason = OtherException (''Waiter '' @ waiter_name @ '' failed: '' @ reason)"

fun waiter_wait ::
  "'w env \<Rightarrow> string \<Rightarrow> string \<Rightarrow> nat \<Rightarrow> nat \<Rightarrow> 'w st \<Rightarrow> (exn + unit) \<times> 'w st" where
  "waiter_wait env waiter_name name delay n s =
     (case call (DescribeStacks name) (describe_stacks env name) s of
        (r, s1) \<Rightarrow>
          (case acceptor env waiter_name r of
             WSuccess \<Rightarrow> (Inr (), s1)
           | WFailure \<Rightarrow>
               (Inl (waiter_error waiter_name ''Waiter encountered a terminal failure state''), s1)
           | WRetry \<Rightarrow>
               (if n \<le> 1 then (Inl (waiter_error waiter_name ''Max attempts exceeded''), s1)
                else waiter_wait env waiter_name name delay (n - 1)
                       (fst s1, snd s1 @ [Call (Sleep delay)]))))"

declare waiter_wait.simps [simp del]

definition wait_for_stack :: "config \<Rightarrow> 'w env \<Rightarrow> string \<Rightarrow> 'w st \<Rightarrow> bool \<times> 'w st" where
  "wait_for_stack cfg env waiter_name s =
     (let s1 = print (''  Waiting for stack '' @ waiter_name @ ''...'') s
      in case waiter_wait env waiter_name (STACK_NAME cfg) 10 120 s1 of
           (Inr u, s2) \<Rightarrow> (True, print (''  Stack '' @ waiter_name @ '' complete.'') s2)
         | (Inl e, s2) \<Rightarrow> (False, print (''  Stack operation failed: '' @ str_exn e) s2))"

fun output_lines :: "(string \<times> string) list \<Rightarrow> string list" where
  "output_lines [] = []"
| "output_lines ((key, val) # os) =
     (''  '' @ ljust 30 key @ '' '' @ val)
     # (if key = ''ReportDashboardURL''
        then [newline @ ''  >>> Dashboard URL: '' @ val] else [])
     @ output_lines os"

definition print_all :: "string list \<Rightarrow> 'w st \<Rightarrow> 'w st" where
  "print_all ls s = (fst s, snd s @ map Print ls)"

definition get_outputs :: "stack \<Rightarrow> (string \<times> string) list" where
  \<comment> \<open>\<open>resp["Stacks"][0].get("Outputs", [])\<close>\<close>
  "get_outputs stk = (case Outputs stk of None \<Rightarrow> [] | Some os \<Rightarrow> os)"

definition print_outputs :: "config \<Rightarrow> 'w env \<Rightarrow> 'w st \<Rightarrow> (exn + unit) \<times> 'w st" where
  "print_outputs cfg env s =
     (case call (DescribeStacks (STACK_NAME cfg)) (describe_stacks env (STACK_NAME cfg)) s of
        (Inr stk, s1) \<Rightarrow>
          (let outputs = get_outputs stk
           in if outputs = [] then (Inr (), print ''  No outputs found.'' s1)
              else (Inr (),
                    print (''  '' @ replicate 70 (CHR ''-''))
                      (print_all (output_lines outputs)
                        (print (''  '' @ replicate 70 (CHR ''-''))
                          (print (newline @ ''  Stack Outputs:'') s1)))))
      | (Inl (ClientError m), s1) \<Rightarrow> (Inr (), print (''  Error: '' @ m) s1)
      | (Inl (OtherException m), s1) \<Rightarrow> (Inl (OtherException m), s1))"

definition print_status :: "config \<Rightarrow> 'w env \<Rightarrow> 'w st \<Rightarrow> (exn + unit) \<times> 'w st" where
  "print_status cfg env s =
     (case call (DescribeStacks (STACK_NAME cfg)) (describe_stacks env (STACK_NAME cfg)) s of
        (Inr stk, s1) \<Rightarrow>
          (let s2 = print (''  Stack:  '' @ StackName stk) s1;
               s3 = print (''  Status: '' @ StackStatus stk) s2
           in case StackStatusReason stk of
                Some reason \<Rightarrow> (Inr (), print (''  Reason: '' @ reason) s3)
              | None \<Rightarrow> (Inr (), s3))
      | (Inl (ClientError m), s1) \<Rightarrow>
          (if contains ''does not exist'' m
           then (Inr (), print (''  Stack '' @ apos @ STACK_NAME cfg @ apos @ '' does not exist.'') s1)
           else (Inr (), print (''  Error: '' @ m) s1))
      | (Inl (OtherException m), s1) \<Rightarrow> (Inl (OtherException m), s1))"

section \<open>Commands\<close>

text \<open>
  The tail of \<open>cmd_deploy\<close> after the create-or-update branch (\<open>if success: ... else: ...
  sys.exit(1)\<close>).
\<close>

definition deploy_finish :: "config \<Rightarrow> 'w env \<Rightarrow> bool \<Rightarrow> 'w st \<Rightarrow> outcome \<times> 'w st" where
  "deploy_finish cfg env success s =
     (if success
      then (case print_outputs cfg env (print (newline @ ''  Deployment successful!'') s) of
              (Inl e, s1) \<Rightarrow> (Raised e, s1)
            | (Inr u, s1) \<Rightarrow> (Returned, s1))
      else (case print_status cfg env
                   (print (newline @ ''  Deployment failed. Check the AWS CloudFormation console.'') s) of
              (Inl e, s1) \<Rightarrow> (Raised e, s1)
            | (Inr u, s1) \<Rightarrow> (SysExit 1, s1)))"

text \<open>The create-or-update branch of \<open>cmd_deploy\<close>, from \<open>if exists:\<close> on.\<close>

definition deploy_apply ::
  "config \<Rightarrow> 'w env \<Rightarrow> string \<Rightarrow> params \<Rightarrow> bool \<Rightarrow> 'w st \<Rightarrow> outcome \<times> 'w st" where
  "deploy_apply cfg env template_url ps exists s =
     (if exists
      then (let s1 = print (''  Stack exists '' @ em_dash @ '' updating...'') s
            in case call (UpdateStack (STACK_NAME cfg) template_url ps (CAPABILITIES cfg))
                      (update_stack env (STACK_NAME cfg) template_url ps (CAPABILITIES cfg)) s1 of
                 (Inl (ClientError m), s2) \<Rightarrow>
                   (if contains ''No updates are to be performed'' m
                    then (case print_outputs cfg env
                                 (print ''  No changes detected. Stack is up to date.'' s2) of
                            (Inl e, s3) \<Rightarrow> (Raised e, s3)
                          | (Inr u, s3) \<Rightarrow> (Returned, s3))
                    else (Raised (ClientError m), s2))
               | (Inl (OtherException m), s2) \<Rightarrow> (Raised (OtherException m), s2)
               | (Inr u, s2) \<Rightarrow>
                   (case wait_for_stack cfg env ''stack_update_complete'' s2 of
                      (success, s3) \<Rightarrow> deploy_finish cfg env success s3))
      else (let s1 = print ''  Creating new stack...'' s
            in case call (CreateStack (STACK_NAME cfg) template_url ps (CAPABILITIES cfg))
                      (create_stack env (STACK_NAME cfg) template_url ps (CAPABILITIES cfg)) s1 of
                 (Inl e, s2) \<Rightarrow> (Raised e, s2)
               | (Inr u, s2) \<Rightarrow>
                   (case wait_for_stack cfg env ''stack_create_complete'' s2 of
                      (success, s3) \<Rightarrow> deploy_finish cfg env success s3)))"

text \<open>
  The staging steps of \<open>cmd_deploy\<close>, before the existence check: the staging bucket,
  the upload of the template and the parameter list.
\<close>

definition deploy_stage ::
  "config \<Rightarrow> 'w env \<Rightarrow> 'w st \<Rightarrow> (exn + string \<times> params) \<times> 'w st" where
  "deploy_stage cfg env s =
     (case get_staging_bucket env s of
        (Inl e, s1) \<Rightarrow> (Inl e, s1)
      | (Inr staging_bucket, s1) \<Rightarrow>
      (case ensure_staging_bucket cfg env staging_bucket s1 of
        (Inl e, s2) \<Rightarrow> (Inl e, s2)
      | (Inr u, s2) \<Rightarrow>
      (case upload_template cfg env staging_bucket s2 of
        (Inl e, s3) \<Rightarrow> (Inl e, s3)
      | (Inr template_url, s3) \<Rightarrow>
      (case build_params cfg env s3 of
        (Inl e, s4) \<Rightarrow> (Inl e, s4)
      | (Inr ps, s4) \<Rightarrow> (Inr (template_url, ps), s4)))))"

definition cmd_deploy :: "config \<Rightarrow> 'w env \<Rightarrow> 'w st \<Rightarrow> outcome \<times> 'w st" where
  "cmd_deploy cfg env s =
     (case deploy_stage cfg env (print (newline @ ''Deploying stack: '' @ STACK_NAME cfg) s) of
        (Inl e, s4) \<Rightarrow> (Raised e, s4)
      | (Inr (template_url, ps), s4) \<Rightarrow>
          (case stack_exists cfg env s4 of
             (Inl e, s5) \<Rightarrow> (Raised e, s5)
           | (Inr exists, s5) \<Rightarrow> deploy_apply cfg env template_url ps exists s5))"

text \<open>
  The first \<open>try\<close> block of \<open>cmd_delete\<close> (emptying the buckets). Its result is the
  local variable \<open>outputs\<close> as the rest of the function finds it: \<open>None\<close> when the
  describe call raised before the assignment, the dictionary otherwise. A dictionary
  comprehension keeps the last value of a repeated key.
\<close>

definition outputs_dict :: "stack \<Rightarrow> string \<rightharpoonup> string" where
  "outputs_dict stk = map_of (rev (get_outputs stk))"

fun empty_buckets ::
  "'w env \<Rightarrow> (string \<rightharpoonup> string) \<Rightarrow> string list \<Rightarrow> 'w st \<Rightarrow> (exn + unit) \<times> 'w st" where
  "empty_buckets env outputs [] s = (Inr (), s)"
| "empty_buckets env outputs (key # keys) s =
     (case outputs key of
        None \<Rightarrow> empty_buckets env outputs keys s
      | Some bucket_name \<Rightarrow>
          (if bucket_name = [] then empty_buckets env outputs keys s
           else (case call (ObjectsDelete bucket_name) (objects_delete env bucket_name)
                        (print (''  Emptying bucket: '' @ bucket_name) s) of
                   (Inl e, s1) \<Rightarrow> (Inl e, s1)
                 | (Inr u, s1) \<Rightarrow> empty_buckets env outputs keys s1)))"

definition empty_buckets_try ::
  "config \<Rightarrow> 'w env \<Rightarrow> 'w st \<Rightarrow> ((exn + unit) \<times> (string \<rightharpoonup> string) option) \<times> 'w st" where
  \<comment> \<open>the body of the \<open>try\<close>: how it ended, and \<open>outputs\<close> as it left it\<close>
  "empty_buckets_try cfg env s =
     (case call (DescribeStacks (STACK_NAME cfg)) (describe_stacks env (STACK_NAME cfg)) s of
        (Inl e, s1) \<Rightarrow> ((Inl e, None), s1)
      | (Inr stk, s1) \<Rightarrow>
          (let outputs = outputs_dict stk
           in case call S3Resource (s3_resource env) s1 of
                (Inl e, s2) \<Rightarrow> ((Inl e, Some outputs), s2)
              | (Inr u, s2) \<Rightarrow>
                  (case empty_buckets env outputs [''ExportDataBucket'', ''AthenaResultsBucket''] s2 of
                     (r, s3) \<Rightarrow> ((r, Some outputs), s3))))"

definition delete_empty_buckets ::
  "config \<Rightarrow> 'w env \<Rightarrow> 'w st \<Rightarrow> (string \<rightharpoonup> string) option \<times> 'w st" where
  \<comment> \<open>the \<open>try\<close> with its \<open>except Exception\<close>\<close>
  "delete_empty_buckets cfg env s =
     (case empty_buckets_try cfg env s of
        ((Inl e, outputs), s1) \<Rightarrow> (outputs, print (''  Warning emptying buckets: '' @ str_exn e) s1)
      | ((Inr u, outputs), s1) \<Rightarrow> (outputs, s1))"

text \<open>
  The second \<open>try\<close> block of \<open>cmd_delete\<close> (deleting the Athena workgroup). Reading
  \<open>outputs\<close> when it was never assigned raises \<open>UnboundLocalError\<close>, which the
  block's own \<open>except Exception\<close> catches like any other failure.
\<close>

definition unbound_local :: "string \<Rightarrow> exn" where
  "unbound_local v =
     OtherException (''cannot access local variable '' @ apos @ v @ apos
                     @ '' where it is not associated with a value'')"

definition workgroup_try ::
  "'w env \<Rightarrow> (string \<rightharpoonup> string) option \<Rightarrow> 'w st \<Rightarrow> (exn + unit) \<times> 'w st" where
  "workgroup_try env outputs s =
     (case call AthenaClient (athena_client env) s of
        (Inl e, s1) \<Rightarrow> (Inl e, s1)
      | (Inr u, s1) \<Rightarrow>
          (case outputs of
             None \<Rightarrow> (Inl (unbound_local ''outputs''), s1)
           | Some d \<Rightarrow>
               (case d ''AthenaWorkgroup'' of
                  None \<Rightarrow> (Inr (), s1)
                | Some wg \<Rightarrow>
                    (if wg = [] then (Inr (), s1)
                     else call (DeleteWorkGroup wg True) (delete_work_group env wg True)
                            (print (''  Deleting Athena workgroup: '' @ wg) s1)))))"

definition delete_workgroup ::
  "'w env \<Rightarrow> (string \<rightharpoonup> string) option \<Rightarrow> 'w st \<Rightarrow> 'w st" where
  "delete_workgroup env outputs s =
     (case workgroup_try env outputs s of
        (Inl e, s1) \<Rightarrow> print (''  Warning deleting workgroup: '' @ str_exn e) s1
      | (Inr u, s1) \<Rightarrow> s1)"

text \<open>What \<open>cmd_delete\<close> does once the confirmation has been accepted.\<close>

definition delete_confirmed :: "config \<Rightarrow> 'w env \<Rightarrow> 'w st \<Rightarrow> outcome \<times> 'w st" where
  "delete_confirmed cfg env s =
     (case delete_empty_buckets cfg env s of
        (outputs, s1) \<Rightarrow>
          (let s2 = delete_workgroup env outputs s1
           in case call (DeleteStack (STACK_NAME cfg)) (delete_stack env (STACK_NAME cfg)) s2 of
                (Inl e, s3) \<Rightarrow> (Raised e, s3)
              | (Inr u, s3) \<Rightarrow>
                  (case wait_for_stack cfg env ''stack_delete_complete'' s3 of
                     (success, s4) \<Rightarrow>
                       (if success then (Returned, print ''  Stack deleted successfully.'' s4)
                        else (Returned, print ''  Delete may have failed. Check console.'' s4)))))"

definition confirm_prompt :: string where
  "confirm_prompt = ''  Type '' @ apos @ ''yes'' @ apos @ '' to confirm: ''"

definition cmd_delete :: "config \<Rightarrow> 'w env \<Rightarrow> 'w st \<Rightarrow> outcome \<times> 'w st" where
  "cmd_delete cfg env s =
     (case stack_exists cfg env s of
        (Inl e, s1) \<Rightarrow> (Raised e, s1)
      | (Inr exists, s1) \<Rightarrow>
          (if \<not> exists
           then (Returned, print (''  Stack '' @ apos @ STACK_NAME cfg @ apos @ '' does not exist.'') s1)
           else (let s2 = print (newline @ ''Deleting stack: '' @ STACK_NAME cfg) s1;
                     s3 = print ''  WARNING: This will delete all resources in the stack.'' s2
                 in case call (Input confirm_prompt) (input_line env confirm_prompt) s3 of
                      (Inl e, s4) \<Rightarrow> (Raised e, s4)
                    | (Inr line, s4) \<Rightarrow>
                        (let confirm = py_lower (py_strip line)
                         in if confirm \<noteq> ''yes'' then (Returned, print ''  Aborted.'' s4)
                            else delete_confirmed cfg env s4))))"

definition cmd_outputs :: "config \<Rightarrow> 'w env \<Rightarrow> 'w st \<Rightarrow> outcome \<times> 'w st" where
  "cmd_outputs cfg env s =
     (case print_outputs cfg env s of (Inl e, s1) \<Rightarrow> (Raised e, s1) | (Inr u, s1) \<Rightarrow> (Returned, s1))"

definition cmd_status :: "config \<Rightarrow> 'w env \<Rightarrow> 'w st \<Rightarrow> outcome \<times> 'w st" where
  "cmd_status cfg env s =
     (case print_status cfg env s of (Inl e, s1) \<Rightarrow> (Raised e, s1) | (Inr u, s1) \<Rightarrow> (Returned, s1))"

section \<open>Main\<close>

definition COMMANDS :: "string list" where
  "COMMANDS = [''deploy'', ''delete'', ''outputs'', ''status'']"

definition usage_lines :: "string \<Rightarrow> string list" where
  "usage_lines prog =
     [''Usage: python '' @ prog @ '' <deploy | delete | outputs | status>'',
      newline @ ''Commands:'',
      ''  deploy   Create or update the CloudFormation stack'',
      ''  delete   Delete the stack (empties buckets first)'',
      ''  outputs  Show stack outputs (dashboard URL, etc.)'',
      ''  status   Show current stack status'']"

text \<open>
  \<open>argv\<close> is \<open>sys.argv\<close>: the script's name, then the arguments. With an empty
  \<open>sys.argv\<close> the usage line's \<open>sys.argv[0]\<close> raises \<open>IndexError\<close>.
\<close>

definition main :: "config \<Rightarrow> 'w env \<Rightarrow> string list \<Rightarrow> 'w st \<Rightarrow> outcome \<times> 'w st" where
  "main cfg env argv s =
     (if length argv < 2 \<or> argv ! 1 \<notin> set COMMANDS
      then (case argv of
              [] \<Rightarrow> (Raised (OtherException ''list index out of range''), s)
            | prog # rest \<Rightarrow> (SysExit 1, print_all (usage_lines prog) s))
      else if argv ! 1 = ''deploy'' then cmd_deploy cfg env s
      else if argv ! 1 = ''delete'' then cmd_delete cfg env s
      else if argv ! 1 = ''outputs'' then cmd_outputs cfg env s
      else cmd_status cfg env s)"

section \<open>What a run did: projections of the trace\<close>

fun mutating :: "event \<Rightarrow> bool" where
  "mutating (Call (CreateStack n u p c)) = True"
| "mutating (Call (UpdateStack n u p c)) = True"
| "mutating (Call (DeleteStack n)) = True"
| "mutating e = False"

definition mutations :: "event list \<Rightarrow> event list" where
  \<comment> \<open>the create, update and delete calls of a trace, in order\<close>
  "mutations tr = filter mutating tr"

fun is_poll :: "event \<Rightarrow> bool" where
  "is_poll (Call (DescribeStacks n)) = True"
| "is_poll e = False"

fun is_sleep :: "event \<Rightarrow> bool" where
  "is_sleep (Call (Sleep d)) = True"
| "is_sleep e = False"

definition param_values :: "string \<Rightarrow> params \<Rightarrow> string list" where
  \<comment> \<open>the values a parameter list gives for one \<open>ParameterKey\<close>, in order\<close>
  "param_values k ps = map snd (filter (\<lambda>p. fst p = k) ps)"


definition poll_trace :: "string \<Rightarrow> nat \<Rightarrow> nat \<Rightarrow> event list" where
  \<comment> \<open>\<open>k + 1\<close> polls of the stack, with a sleep of \<open>delay\<close> seconds between two polls\<close>
  "poll_trace name delay k =
     concat (replicate k [Call (DescribeStacks name), Call (Sleep delay)])
     @ [Call (DescribeStacks name)]"


section \<open>A scripted environment for concrete runs\<close>

text \<open>
  The world is the queue of answers that \<open>describe_stacks\<close> has still to give; once
  it is empty the stack does not exist. Every other call succeeds, the account is
  \<open>123456789012\<close> and the user types \<open>yes\<close>. Variants are record updates of it.
\<close>

definition not_found :: exn where
  "not_found = ClientError (''An error occurred (ValidationError) when calling the ''
     @ ''DescribeStacks operation: Stack with id gsi-export-test does not exist'')"

definition no_updates :: exn where
  "no_updates = ClientError (''An error occurred (ValidationError) when calling the ''
     @ ''UpdateStack operation: No updates are to be performed.'')"

definition access_denied :: exn where
  "access_denied = ClientError (''An error occurred (AccessDenied) when calling the ''
     @ ''DescribeStacks operation: User is not authorized to perform: cloudformation:DescribeStacks'')"

definition demo_stack :: "string \<Rightarrow> stack" where
  "demo_stack status = \<lparr>
     StackName = ''gsi-export-test'',
     StackStatus = status,
     StackStatusReason = None,
     Outputs = Some [(''ExportDataBucket'', ''gsi-export-test-123456789012''),
                     (''AthenaWorkgroup'', ''gsi-export-wg''),
                     (''ReportDashboardURL'', ''https://example.com/dashboard'')] \<rparr>"

definition demo_acceptor :: "string \<Rightarrow> exn + stack \<Rightarrow> waiter_state" where
  "demo_acceptor waiter_name r =
     (case r of
        Inl e \<Rightarrow> if waiter_name = ''stack_delete_complete'' then WSuccess else WFailure
      | Inr stk \<Rightarrow>
          if StackStatus stk \<in> set [''CREATE_COMPLETE'', ''UPDATE_COMPLETE'', ''DELETE_COMPLETE'']
          then WSuccess
          else if StackStatus stk \<in> set [''CREATE_IN_PROGRESS'', ''UPDATE_IN_PROGRESS'', ''DELETE_IN_PROGRESS'']
          then WRetry
          else WFailure)"

definition demo_env :: "(exn + stack) list env" where
  "demo_env = \<lparr>
     get_caller_identity = (\<lambda>w. (Inr ''123456789012'', w)),
     head_bucket = (\<lambda>bucket w. (Inr (), w)),
     create_bucket = (\<lambda>bucket location w. (Inr (), w)),
     read_file = (\<lambda>path w. (Inr ''Resources: {}'', w)),
     put_object = (\<lambda>bucket key body w. (Inr (), w)),
     describe_stacks = (\<lambda>name w. case w of [] \<Rightarrow> (Inl not_found, []) | r # rs \<Rightarrow> (r, rs)),
     update_stack = (\<lambda>name url ps caps w. (Inr (), w)),
     create_stack = (\<lambda>name url ps caps w. (Inr (), w)),
     delete_stack = (\<lambda>name w. (Inr (), w)),
     acceptor = demo_acceptor,
     input_line = (\<lambda>prompt w. (Inr ''yes'', w)),
     s3_resource = (\<lambda>w. (Inr (), w)),
     objects_delete = (\<lambda>bucket w. (Inr (), w)),
     athena_client = (\<lambda>w. (Inr (), w)),
     delete_work_group = (\<lambda>wg recursive w. (Inr (), w)),
     default_region = None \<rparr>"

definition failing_s3 :: "(exn + stack) list env" where
  \<comment> \<open>emptying a bucket is refused\<close>
  "failing_s3 = demo_env\<lparr>objects_delete := (\<lambda>bucket w. (Inl (OtherException ''AccessDenied''), w))\<rparr>"


section \<open>Evaluating the scripted environment\<close>

lemma source_config_sel:
  "STACK_NAME source_config = ''gsi-export-test''"
  "TEMPLATE_FILE source_config = ''dynamo-gsi-scheduled-export.yaml''"
  "REGION source_config = ''us-east-1''"
  "S3_BUCKET_NAME source_config = []"
  "CAPABILITIES source_config = [''CAPABILITY_NAMED_IAM'']"
  by (simp_all add: source_config_def)

lemma demo_env_sel:
  "get_caller_identity demo_env w = (Inr ''123456789012'', w)"
  "head_bucket demo_env bucket w = (Inr (), w)"
  "create_bucket demo_env bucket location w = (Inr (), w)"
  "read_file demo_env path w = (Inr ''Resources: {}'', w)"
  "put_object demo_env bucket key body w = (Inr (), w)"
  "describe_stacks demo_env name [] = (Inl not_found, [])"
  "describe_stacks demo_env name (r # rs) = (r, rs)"
  "update_stack demo_env name url ps caps w = (Inr (), w)"
  "create_stack demo_env name url ps caps w = (Inr (), w)"
  "delete_stack demo_env name w = (Inr (), w)"
  "acceptor demo_env = demo_acceptor"
  "input_line demo_env prompt w = (Inr ''yes'', w)"
  "s3_resource demo_env w = (Inr (), w)"
  "objects_delete demo_env bucket w = (Inr (), w)"
  "athena_client demo_env w = (Inr (), w)"
  "delete_work_group demo_env wg recursive w = (Inr (), w)"
  "default_region demo_env = None"
  by (simp_all add: demo_env_def)

lemma source_params_update:
  "AList.update ''S3BucketName'' v (PARAMETERS source_config) =
     PARAMETERS source_config @ [(''S3BucketName'', v)]"
  by (simp add: source_config_def)

lemmas demo_defs = source_config_sel source_params_update demo_env_sel demo_stack_def demo_acceptor_def not_found_def
  no_updates_def access_denied_def

lemmas run_defs = call_def print_def print_all_def get_account_id_def get_staging_bucket_def
  s3_region_name_def ensure_staging_bucket_def upload_template_def build_params_def stack_exists_def
  deploy_stage_def newline_def apos_def em_dash_def Let_def

section \<open>The mutating calls of a run\<close>

text \<open>
  Printing, staging, describing, polling and the read paths issue no mutating call; the
  create-or-update branch issues exactly one.
\<close>

lemma mutations_print [simp]: "mutations (snd (print l s)) = mutations (snd s)"
  by (simp add: print_def mutations_def)

lemma mutations_print_all [simp]: "mutations (snd (print_all ls s)) = mutations (snd s)"
  by (simp add: print_all_def mutations_def)

lemma mutations_call:
  "call a f s = (r, s') \<Longrightarrow> mutations (snd s') = mutations (snd s) @ (if mutating (Call a) then [Call a] else [])"
  by (auto simp: call_def mutations_def split: prod.splits)

lemma mutations_get_account_id:
  "get_account_id env s = (r, s') \<Longrightarrow> mutations (snd s') = mutations (snd s)"
  by (auto simp: get_account_id_def dest!: mutations_call)

lemma mutations_get_staging_bucket:
  "get_staging_bucket env s = (r, s') \<Longrightarrow> mutations (snd s') = mutations (snd s)"
  by (auto simp: get_staging_bucket_def split: prod.splits sum.splits dest!: mutations_get_account_id)

lemma mutations_ensure_staging_bucket:
  "ensure_staging_bucket cfg env b s = (r, s') \<Longrightarrow> mutations (snd s') = mutations (snd s)"
  by (auto simp: ensure_staging_bucket_def Let_def split: prod.splits sum.splits exn.splits option.splits if_splits dest!: mutations_call)

lemma mutations_upload_template:
  "upload_template cfg env b s = (r, s') \<Longrightarrow> mutations (snd s') = mutations (snd s)"
  by (auto simp: upload_template_def Let_def split: prod.splits sum.splits dest!: mutations_call)

lemma mutations_build_params:
  "build_params cfg env s = (r, s') \<Longrightarrow> mutations (snd s') = mutations (snd s)"
  by (auto simp: build_params_def split: prod.splits sum.splits if_splits dest!: mutations_get_account_id)

lemma mutations_stack_exists:
  "stack_exists cfg env s = (r, s') \<Longrightarrow> mutations (snd s') = mutations (snd s)"
  by (auto simp: stack_exists_def split: prod.splits sum.splits exn.splits if_splits dest!: mutations_call)

lemma mutations_deploy_stage:
  "deploy_stage cfg env s = (r, s') \<Longrightarrow> mutations (snd s') = mutations (snd s)"
  by (auto simp: deploy_stage_def split: prod.splits sum.splits
      dest!: mutations_get_staging_bucket mutations_ensure_staging_bucket
             mutations_upload_template mutations_build_params)

lemma mutations_waiter_wait:
  "waiter_wait env wn name d n s = (r, s') \<Longrightarrow> mutations (snd s') = mutations (snd s)"
proof (induction env wn name d n s rule: waiter_wait.induct)
  case (1 env wn name d n s)
  obtain r1 s1 where c: "call (DescribeStacks name) (describe_stacks env name) s = (r1, s1)"
    by (cases "call (DescribeStacks name) (describe_stacks env name) s") auto
  have m1: "mutations (snd s1) = mutations (snd s)"
    using mutations_call [OF c] by simp
  show ?case
  proof (cases "acceptor env wn r1 = WRetry \<and> \<not> n \<le> 1")
    case True
    then have "waiter_wait env wn name d (n - 1) (fst s1, snd s1 @ [Call (Sleep d)]) = (r, s')"
      using "1.prems" c by (simp add: waiter_wait.simps [of env wn name d n s])
    from "1.IH" [OF c [symmetric] _ _ this] True
    have "mutations (snd s') = mutations (snd (fst s1, snd s1 @ [Call (Sleep d)]))" by simp
    then show ?thesis using m1 by (simp add: mutations_def)
  next
    case False
    then have "s' = s1"
      using "1.prems" c
      by (auto simp: waiter_wait.simps [of env wn name d n s] split: waiter_state.splits if_splits)
    then show ?thesis using m1 by simp
  qed
qed

lemma mutations_wait_for_stack:
  "wait_for_stack cfg env wn s = (r, s') \<Longrightarrow> mutations (snd s') = mutations (snd s)"
  by (auto simp: wait_for_stack_def Let_def split: prod.splits sum.splits dest!: mutations_waiter_wait)

lemma mutations_print_outputs:
  "print_outputs cfg env s = (r, s') \<Longrightarrow> mutations (snd s') = mutations (snd s)"
  by (auto simp: print_outputs_def Let_def split: prod.splits sum.splits exn.splits if_splits dest!: mutations_call)

lemma mutations_print_status:
  "print_status cfg env s = (r, s') \<Longrightarrow> mutations (snd s') = mutations (snd s)"
  by (auto simp: print_status_def Let_def split: prod.splits sum.splits exn.splits if_splits option.splits dest!: mutations_call)

lemma mutations_deploy_finish:
  "deploy_finish cfg env b s = (r, s') \<Longrightarrow> mutations (snd s') = mutations (snd s)"
  by (auto simp: deploy_finish_def split: prod.splits sum.splits if_splits dest!: mutations_print_outputs mutations_print_status)

lemma mutations_deploy_finish':
  "mutations (snd (snd (deploy_finish cfg env b s))) = mutations (snd s)"
  using mutations_deploy_finish [of cfg env b s "fst (deploy_finish cfg env b s)" "snd (deploy_finish cfg env b s)"]
  by simp

lemma mutations_deploy_apply:
  "mutations (snd (snd (deploy_apply cfg env url ps ex s))) =
     mutations (snd s) @
       [Call (if ex then UpdateStack (STACK_NAME cfg) url ps (CAPABILITIES cfg)
              else CreateStack (STACK_NAME cfg) url ps (CAPABILITIES cfg))]"
  by (auto simp: deploy_apply_def Let_def mutations_deploy_finish' split: prod.splits sum.splits exn.splits if_splits
      dest!: mutations_call mutations_print_outputs mutations_wait_for_stack)

lemma mutations_cmd_deploy:
  "mutations (snd (snd (cmd_deploy cfg env s))) =
     mutations (snd s) @
     (case deploy_stage cfg env (print (newline @ ''Deploying stack: '' @ STACK_NAME cfg) s) of
        (Inl e, s4) \<Rightarrow> []
      | (Inr (url, ps), s4) \<Rightarrow>
          (case fst (stack_exists cfg env s4) of
             Inl e \<Rightarrow> []
           | Inr ex \<Rightarrow>
               [Call (if ex then UpdateStack (STACK_NAME cfg) url ps (CAPABILITIES cfg)
                      else CreateStack (STACK_NAME cfg) url ps (CAPABILITIES cfg))]))"
  by (auto simp: cmd_deploy_def mutations_deploy_apply split: prod.splits sum.splits
      dest!: mutations_deploy_stage mutations_stack_exists)

lemma deploy_at_most_one_mutation:
  "length (mutations (snd (snd (cmd_deploy cfg env (w, []))))) \<le> 1"
  by (subst mutations_cmd_deploy) (simp add: mutations_def split: prod.splits sum.splits)

section \<open>Deploy: create or update\<close>

text \<open>
  Claim C1. A deploy that gets as far as the existence check issues exactly one mutating
  stack call, chosen by the check's answer: \<open>update_stack\<close> and no \<open>create_stack\<close>
  when the stack exists, \<open>create_stack\<close> and no \<open>update_stack\<close> when it does not;
  the call carries the uploaded template's URL and the assembled parameters. (A deploy
  whose staging or whose existence check raises stops there with no mutating call, and
  no deploy issues two: \<open>deploy_at_most_one_mutation\<close>.)
\<close>

theorem deploy_create_xor_update:
  assumes "deploy_stage cfg env (print (newline @ ''Deploying stack: '' @ STACK_NAME cfg) s) = (Inr (url, ps), s4)"
      and "stack_exists cfg env s4 = (Inr exists, s5)"
  shows "mutations (snd (snd (cmd_deploy cfg env s))) =
           mutations (snd s) @
             (if exists then [Call (UpdateStack (STACK_NAME cfg) url ps (CAPABILITIES cfg))]
              else [Call (CreateStack (STACK_NAME cfg) url ps (CAPABILITIES cfg))])"
  using assms by (simp add: mutations_cmd_deploy)

theorem deploy_create_xor_update_witness:
  "mutations (snd (snd (cmd_deploy source_config demo_env ([], [])))) =
     [Call (CreateStack ''gsi-export-test''
        ''https://cfn-templates-123456789012.s3.amazonaws.com/gsi-export-test/template.yaml''
        (PARAMETERS source_config @ [(''S3BucketName'', ''gsi-export-test-123456789012'')])
        [''CAPABILITY_NAMED_IAM''])]
   \<and> mutations (snd (snd (cmd_deploy source_config demo_env ([Inr (demo_stack ''CREATE_COMPLETE'')], [])))) =
     [Call (UpdateStack ''gsi-export-test''
        ''https://cfn-templates-123456789012.s3.amazonaws.com/gsi-export-test/template.yaml''
        (PARAMETERS source_config @ [(''S3BucketName'', ''gsi-export-test-123456789012'')])
        [''CAPABILITY_NAMED_IAM''])]"
  using deploy_create_xor_update [of source_config demo_env "([], [])"
      "''https://cfn-templates-123456789012.s3.amazonaws.com/gsi-export-test/template.yaml''"
      "PARAMETERS source_config @ [(''S3BucketName'', ''gsi-export-test-123456789012'')]"
      "snd (deploy_stage source_config demo_env (print (newline @ ''Deploying stack: '' @ STACK_NAME source_config) ([], [])))"
      False
      "snd (stack_exists source_config demo_env (snd (deploy_stage source_config demo_env (print (newline @ ''Deploying stack: '' @ STACK_NAME source_config) ([], [])))))"]
    deploy_create_xor_update [of source_config demo_env "([Inr (demo_stack ''CREATE_COMPLETE'')], [])"
      "''https://cfn-templates-123456789012.s3.amazonaws.com/gsi-export-test/template.yaml''"
      "PARAMETERS source_config @ [(''S3BucketName'', ''gsi-export-test-123456789012'')]"
      "snd (deploy_stage source_config demo_env (print (newline @ ''Deploying stack: '' @ STACK_NAME source_config) ([Inr (demo_stack ''CREATE_COMPLETE'')], [])))"
      True
      "snd (stack_exists source_config demo_env (snd (deploy_stage source_config demo_env (print (newline @ ''Deploying stack: '' @ STACK_NAME source_config) ([Inr (demo_stack ''CREATE_COMPLETE'')], [])))))"]
  by (simp add: run_defs demo_defs mutations_def)

section \<open>Parameter assembly\<close>

lemma param_values_update_other:
  "k \<noteq> k' \<Longrightarrow> param_values k (AList.update k' v al) = param_values k al"
  by (induction al) (auto simp: param_values_def)

lemma param_values_update_absent:
  "k \<notin> fst ` set al \<Longrightarrow> param_values k (AList.update k v al) = [v]"
  by (induction al) (auto simp: param_values_def)

lemma param_values_absent:
  "k \<notin> fst ` set al \<Longrightarrow> param_values k al = []"
  by (induction al) (auto simp: param_values_def)

lemma param_values_update_same:
  "distinct (map fst al) \<Longrightarrow> param_values k (AList.update k v al) = [v]"
proof (induction al)
  case Nil
  then show ?case by (simp add: param_values_def)
next
  case (Cons p al)
  show ?case
  proof (cases "fst p = k")
    case True
    then have "k \<notin> fst ` set al" using Cons.prems by auto
    then have "param_values k al = []" by (rule param_values_absent)
    then show ?thesis using True by (cases p) (simp add: param_values_def)
  next
    case False
    then show ?thesis using Cons by (cases p) (auto simp: param_values_def)
  qed
qed

lemma deploy_stage_params:
  "deploy_stage cfg env s = (Inr (url, ps), s') \<Longrightarrow> \<exists>s3. build_params cfg env s3 = (Inr ps, s')"
  by (auto simp: deploy_stage_def split: prod.splits sum.splits)

text \<open>
  Claim C7. With no bucket override configured (\<open>S3_BUCKET_NAME\<close> empty), the parameter
  list has exactly one \<open>S3BucketName\<close> entry and its value is the stack name, a hyphen
  and the caller's account id; with an override configured the entry's value is the
  override, and the account is not even asked for. Every static parameter keeps its
  value. The parameter list of a Python dictionary has distinct keys. With the file's
  own constants and account \<open>123456789012\<close> the value is
  \<open>gsi-export-test-123456789012\<close>.
\<close>

theorem build_params_bucket_name:
  assumes "distinct (map fst (PARAMETERS cfg))"
  shows "(S3_BUCKET_NAME cfg = [] \<longrightarrow> get_caller_identity env (fst s) = (Inr account, w') \<longrightarrow>
            (\<exists>ps. build_params cfg env s = (Inr ps, (w', snd s @ [Call GetCallerIdentity]))
               \<and> param_values ''S3BucketName'' ps = [STACK_NAME cfg @ ''-'' @ account]
               \<and> (\<forall>k. k \<noteq> ''S3BucketName'' \<longrightarrow> param_values k ps = param_values k (PARAMETERS cfg))))
       \<and> (S3_BUCKET_NAME cfg \<noteq> [] \<longrightarrow>
            (\<exists>ps. build_params cfg env s = (Inr ps, s)
               \<and> param_values ''S3BucketName'' ps = [S3_BUCKET_NAME cfg]
               \<and> (\<forall>k. k \<noteq> ''S3BucketName'' \<longrightarrow> param_values k ps = param_values k (PARAMETERS cfg))))"
  using assms
  by (simp add: build_params_def get_account_id_def call_def param_values_update_same
      param_values_update_other)

theorem build_params_bucket_name_witness:
  "(\<exists>ps. build_params source_config demo_env ([], []) = (Inr ps, ([], [Call GetCallerIdentity]))
      \<and> param_values ''S3BucketName'' ps = [''gsi-export-test-123456789012''])
   \<and> (\<exists>ps. build_params (source_config\<lparr>S3_BUCKET_NAME := ''my-export-bucket''\<rparr>) demo_env ([], []) = (Inr ps, ([], []))
      \<and> param_values ''S3BucketName'' ps = [''my-export-bucket''])"
proof -
  have d: "distinct (map fst (PARAMETERS source_config))"
    by (simp add: source_config_def)
  have d': "distinct (map fst (PARAMETERS (source_config\<lparr>S3_BUCKET_NAME := ''my-export-bucket''\<rparr>)))"
    by (simp add: source_config_def)
  show ?thesis
    using build_params_bucket_name [OF d, of demo_env "([], [])" "''123456789012''" "[]"]
      build_params_bucket_name [OF d', of demo_env "([], [])"]
    by (simp add: source_config_sel demo_env_sel) blast
qed

section \<open>The existence check\<close>

lemma stack_exists_found:
  "describe_stacks env (STACK_NAME cfg) (fst s) = (Inr stk, w') \<Longrightarrow>
   stack_exists cfg env s =
     (Inr (StackStatus stk \<noteq> ''DELETE_COMPLETE''), (w', snd s @ [Call (DescribeStacks (STACK_NAME cfg))]))"
  by (simp add: stack_exists_def call_def)

lemma stack_exists_not_found:
  "describe_stacks env (STACK_NAME cfg) (fst s) = (Inl (ClientError m), w') \<Longrightarrow>
   contains ''does not exist'' m \<Longrightarrow>
   stack_exists cfg env s = (Inr False, (w', snd s @ [Call (DescribeStacks (STACK_NAME cfg))]))"
  by (simp add: stack_exists_def call_def)

lemma stack_exists_other_client_error:
  "describe_stacks env (STACK_NAME cfg) (fst s) = (Inl (ClientError m), w') \<Longrightarrow>
   \<not> contains ''does not exist'' m \<Longrightarrow>
   stack_exists cfg env s = (Inl (ClientError m), (w', snd s @ [Call (DescribeStacks (STACK_NAME cfg))]))"
  by (simp add: stack_exists_def call_def)

text \<open>
  Claim C9. When the describe call succeeds, the existence check answers False for the
  status \<open>DELETE_COMPLETE\<close> and True for every other status, whatever it is
  (in-progress and rollback statuses included); so a deploy whose existence check sees
  \<open>DELETE_COMPLETE\<close> issues the create call and no update call, and one that sees any
  other status issues the update call and no create call.
\<close>

theorem stack_exists_delete_complete:
  assumes "describe_stacks env (STACK_NAME cfg) (fst s4) = (Inr stk, w5)"
  shows "fst (stack_exists cfg env s4) = Inr (StackStatus stk \<noteq> ''DELETE_COMPLETE'')
       \<and> (deploy_stage cfg env (print (newline @ ''Deploying stack: '' @ STACK_NAME cfg) s) = (Inr (url, ps), s4) \<longrightarrow>
            mutations (snd (snd (cmd_deploy cfg env s))) =
              mutations (snd s) @
                (if StackStatus stk = ''DELETE_COMPLETE''
                 then [Call (CreateStack (STACK_NAME cfg) url ps (CAPABILITIES cfg))]
                 else [Call (UpdateStack (STACK_NAME cfg) url ps (CAPABILITIES cfg))]))"
  using stack_exists_found [OF assms]
  by (simp add: mutations_cmd_deploy)

theorem stack_exists_delete_complete_witness:
  "fst (stack_exists source_config demo_env ([Inr (demo_stack ''DELETE_COMPLETE'')], [])) = Inr False
   \<and> fst (stack_exists source_config demo_env ([Inr (demo_stack ''UPDATE_ROLLBACK_IN_PROGRESS'')], [])) = Inr True
   \<and> mutations (snd (snd (cmd_deploy source_config demo_env ([Inr (demo_stack ''DELETE_COMPLETE'')], [])))) =
       [Call (CreateStack ''gsi-export-test''
          ''https://cfn-templates-123456789012.s3.amazonaws.com/gsi-export-test/template.yaml''
          (PARAMETERS source_config @ [(''S3BucketName'', ''gsi-export-test-123456789012'')])
          [''CAPABILITY_NAMED_IAM''])]"
  using stack_exists_delete_complete [of demo_env source_config
      "([Inr (demo_stack ''DELETE_COMPLETE'')], [])" "demo_stack ''DELETE_COMPLETE''" "[]"
      "([Inr (demo_stack ''DELETE_COMPLETE'')], [])" "''''" "[]"]
    stack_exists_delete_complete [of demo_env source_config
      "([Inr (demo_stack ''UPDATE_ROLLBACK_IN_PROGRESS'')], [])" "demo_stack ''UPDATE_ROLLBACK_IN_PROGRESS''" "[]"
      "([Inr (demo_stack ''UPDATE_ROLLBACK_IN_PROGRESS'')], [])" "''''" "[]"]
    stack_exists_delete_complete [of demo_env source_config
      "snd (deploy_stage source_config demo_env (print (newline @ ''Deploying stack: '' @ STACK_NAME source_config) ([Inr (demo_stack ''DELETE_COMPLETE'')], [])))"
      "demo_stack ''DELETE_COMPLETE''" "[]"
      "([Inr (demo_stack ''DELETE_COMPLETE'')], [])"
      "''https://cfn-templates-123456789012.s3.amazonaws.com/gsi-export-test/template.yaml''"
      "PARAMETERS source_config @ [(''S3BucketName'', ''gsi-export-test-123456789012'')]"]
  by (simp add: run_defs demo_defs mutations_def)

section \<open>The read paths and a stack that does not exist\<close>


lemma print_status_not_found:
  "describe_stacks env (STACK_NAME cfg) (fst s) = (Inl (ClientError m), w') \<Longrightarrow>
   contains ''does not exist'' m \<Longrightarrow>
   print_status cfg env s =
     (Inr (), (w', snd s @ [Call (DescribeStacks (STACK_NAME cfg)),
        Print (''  Stack '' @ apos @ STACK_NAME cfg @ apos @ '' does not exist.'')]))"
  by (simp add: print_status_def call_def print_def)

lemma print_status_other_client_error:
  "describe_stacks env (STACK_NAME cfg) (fst s) = (Inl (ClientError m), w') \<Longrightarrow>
   \<not> contains ''does not exist'' m \<Longrightarrow>
   print_status cfg env s =
     (Inr (), (w', snd s @ [Call (DescribeStacks (STACK_NAME cfg)), Print (''  Error: '' @ m)]))"
  by (simp add: print_status_def call_def print_def)

lemma not_found_contains: "contains ''does not exist'' (str_exn not_found)"
  by (simp add: not_found_def)

lemma access_denied_contains: "\<not> contains ''does not exist'' (str_exn access_denied)"
  by (simp add: access_denied_def)

text \<open>
  Claim C4, at the input where the code departs from it. \<open>status\<close> answers a describe
  call that failed with "does not exist" by its own friendly line, and the existence
  check answers False (\<open>stack_exists_not_found\<close>), as the claim says. \<open>outputs\<close> has no
  such branch: the not-found error is printed by the same \<open>Error:\<close> line as any other
  client error (here, an access-denied one), so it is not surfaced distinctly there.
  Neither path crashes.
\<close>

theorem outputs_not_found_printed_as_generic_error:
  "main source_config demo_env [''deploy.py'', ''outputs''] ([], []) =
     (Returned, ([], [Call (DescribeStacks ''gsi-export-test''), Print (''  Error: '' @ str_exn not_found)]))
   \<and> main source_config demo_env [''deploy.py'', ''outputs''] ([Inl access_denied], []) =
     (Returned, ([], [Call (DescribeStacks ''gsi-export-test''), Print (''  Error: '' @ str_exn access_denied)]))
   \<and> main source_config demo_env [''deploy.py'', ''status''] ([], []) =
     (Returned, ([], [Call (DescribeStacks ''gsi-export-test''),
        Print (''  Stack '' @ apos @ ''gsi-export-test'' @ apos @ '' does not exist.'')]))
   \<and> main source_config demo_env [''deploy.py'', ''status''] ([Inl access_denied], []) =
     (Returned, ([], [Call (DescribeStacks ''gsi-export-test''), Print (''  Error: '' @ str_exn access_denied)]))"
  by (simp add: main_def COMMANDS_def cmd_outputs_def cmd_status_def print_outputs_def print_status_def
      call_def print_def source_config_sel demo_env_sel not_found_def access_denied_def)

section \<open>Delete: the confirmation\<close>

lemma trace_call: "snd (snd (call a f s)) = snd s @ [Call a]"
  by (simp add: call_def split: prod.splits)

lemma mutations_empty_buckets:
  "empty_buckets env outputs keys s = (r, s') \<Longrightarrow> mutations (snd s') = mutations (snd s)"
proof (induction keys arbitrary: s)
  case Nil
  then show ?case by simp
next
  case (Cons key keys)
  then show ?case
    by (auto split: option.splits if_splits prod.splits sum.splits dest!: mutations_call)
qed

lemma mutations_empty_buckets_try:
  "empty_buckets_try cfg env s = (r, s') \<Longrightarrow> mutations (snd s') = mutations (snd s)"
  by (auto simp: empty_buckets_try_def Let_def simp del: empty_buckets.simps
      split: prod.splits sum.splits dest!: mutations_call mutations_empty_buckets)

lemma mutations_delete_empty_buckets:
  "delete_empty_buckets cfg env s = (r, s') \<Longrightarrow> mutations (snd s') = mutations (snd s)"
  by (auto simp: delete_empty_buckets_def split: prod.splits sum.splits
      dest!: mutations_empty_buckets_try)

lemma mutations_workgroup_try:
  "workgroup_try env outputs s = (r, s') \<Longrightarrow> mutations (snd s') = mutations (snd s)"
  by (auto simp: workgroup_try_def split: prod.splits sum.splits option.splits if_splits
      dest!: mutations_call)

lemma mutations_delete_workgroup:
  "mutations (snd (delete_workgroup env outputs s)) = mutations (snd s)"
  by (auto simp: delete_workgroup_def split: prod.splits sum.splits dest!: mutations_workgroup_try)

lemma mutations_delete_confirmed:
  "mutations (snd (snd (delete_confirmed cfg env s))) =
     mutations (snd s) @ [Call (DeleteStack (STACK_NAME cfg))]"
  by (auto simp: delete_confirmed_def Let_def mutations_delete_workgroup
      split: prod.splits sum.splits
      dest!: mutations_call mutations_delete_empty_buckets mutations_wait_for_stack)

lemma cmd_delete_confirm:
  assumes "stack_exists cfg env s = (Inr True, s1)"
      and "input_line env confirm_prompt (fst s1) = (Inr line, w2)"
  shows "cmd_delete cfg env s =
           (if py_lower (py_strip line) = ''yes''
            then delete_confirmed cfg env
                   (w2, snd s1 @ [Print (newline @ ''Deleting stack: '' @ STACK_NAME cfg),
                      Print ''  WARNING: This will delete all resources in the stack.'',
                      Call (Input confirm_prompt)])
            else (Returned,
                   (w2, snd s1 @ [Print (newline @ ''Deleting stack: '' @ STACK_NAME cfg),
                      Print ''  WARNING: This will delete all resources in the stack.'',
                      Call (Input confirm_prompt), Print ''  Aborted.''])))"
  using assms by (simp add: cmd_delete_def call_def print_def Let_def)

lemmas norm_defs = py_lower_def py_strip_def py_isspace_def py_lower_char_def char_of_def
  bit_Suc_0_iff

lemmas delete_defs = cmd_delete_def delete_confirmed_def delete_empty_buckets_def empty_buckets_try_def
  delete_workgroup_def workgroup_try_def outputs_dict_def get_outputs_def wait_for_stack_def
  unbound_local_def confirm_prompt_def

text \<open>
  Claim C2, as amended. On an existing stack (the describe call succeeds with a status
  other than \<open>DELETE_COMPLETE\<close>), when the line typed at the prompt, stripped of
  surrounding whitespace and lowercased, is not \<open>yes\<close>, the run is exactly: the
  describe call of the existence check, the two banner lines, the prompt and
  \<open>Aborted.\<close>; it returns, so the exit code is 0. No delete call, no cleanup call.
\<close>

theorem delete_aborts_without_confirmation:
  assumes "describe_stacks env (STACK_NAME cfg) w = (Inr stk, w1)"
      and "StackStatus stk \<noteq> ''DELETE_COMPLETE''"
      and "input_line env confirm_prompt w1 = (Inr line, w2)"
      and "py_lower (py_strip line) \<noteq> ''yes''"
  shows "cmd_delete cfg env (w, tr) =
           (Returned,
            (w2, tr @ [Call (DescribeStacks (STACK_NAME cfg)),
               Print (newline @ ''Deleting stack: '' @ STACK_NAME cfg),
               Print ''  WARNING: This will delete all resources in the stack.'',
               Call (Input confirm_prompt), Print ''  Aborted.'']))
         \<and> exit_code (fst (cmd_delete cfg env (w, tr))) = 0"
proof -
  have "stack_exists cfg env (w, tr) = (Inr True, (w1, tr @ [Call (DescribeStacks (STACK_NAME cfg))]))"
    using stack_exists_found [of env cfg "(w, tr)" stk w1] assms(1,2) by simp
  from cmd_delete_confirm [OF this] assms(3,4) show ?thesis by simp
qed

theorem delete_aborts_without_confirmation_witness:
  "cmd_delete source_config (demo_env\<lparr>input_line := (\<lambda>p w. (Inr ''no'', w))\<rparr>)
       ([Inr (demo_stack ''CREATE_COMPLETE'')], []) =
     (Returned,
      ([], [Call (DescribeStacks ''gsi-export-test''),
         Print (newline @ ''Deleting stack: gsi-export-test''),
         Print ''  WARNING: This will delete all resources in the stack.'',
         Call (Input confirm_prompt), Print ''  Aborted.'']))"
  using delete_aborts_without_confirmation [of "demo_env\<lparr>input_line := (\<lambda>p w. (Inr ''no'', w))\<rparr>"
      source_config "[Inr (demo_stack ''CREATE_COMPLETE'')]" "demo_stack ''CREATE_COMPLETE''" "[]"
      "''no''" "[]" "[]"]
  by (simp add: demo_defs norm_defs)

text \<open>
  Claim C2 as stated speaks of an input that is not the exact token \<open>yes\<close>. The input
  \<open>YES\<close> is not that token, and the delete goes ahead: the bucket is emptied and
  \<open>delete_stack\<close> is called.
\<close>

theorem delete_proceeds_on_uppercase_yes:
  "''YES'' \<noteq> ''yes''
   \<and> mutations (snd (snd (cmd_delete source_config (demo_env\<lparr>input_line := (\<lambda>p w. (Inr ''YES'', w))\<rparr>)
        ([Inr (demo_stack ''CREATE_COMPLETE''), Inr (demo_stack ''CREATE_COMPLETE'')], [])))) =
       [Call (DeleteStack ''gsi-export-test'')]
   \<and> Call (ObjectsDelete ''gsi-export-test-123456789012'') \<in>
       set (snd (snd (cmd_delete source_config (demo_env\<lparr>input_line := (\<lambda>p w. (Inr ''YES'', w))\<rparr>)
        ([Inr (demo_stack ''CREATE_COMPLETE''), Inr (demo_stack ''CREATE_COMPLETE'')], []))))"
  by (simp add: delete_defs run_defs demo_defs norm_defs mutations_def waiter_wait.simps)

text \<open>
  Claim C10. The line typed at the prompt is compared after \<open>strip()\<close> and
  \<open>lower()\<close>: on an existing stack, the delete proceeds (\<open>delete_stack\<close> is the one
  mutating call of the run) exactly when the normalized line is \<open>yes\<close>, and otherwise
  the run ends with \<open>Aborted.\<close> and no mutating call. \<open>YES\<close> and \<open> Yes \<close>
  normalize to \<open>yes\<close>.
\<close>

theorem delete_confirmation_normalized:
  assumes "stack_exists cfg env s = (Inr True, s1)"
      and "input_line env confirm_prompt (fst s1) = (Inr line, w2)"
  shows "mutations (snd (snd (cmd_delete cfg env s))) =
           mutations (snd s) @
             (if py_lower (py_strip line) = ''yes'' then [Call (DeleteStack (STACK_NAME cfg))] else [])
       \<and> (py_lower (py_strip line) \<noteq> ''yes'' \<longrightarrow>
            cmd_delete cfg env s =
              (Returned,
               (w2, snd s1 @ [Print (newline @ ''Deleting stack: '' @ STACK_NAME cfg),
                  Print ''  WARNING: This will delete all resources in the stack.'',
                  Call (Input confirm_prompt), Print ''  Aborted.''])))"
  using cmd_delete_confirm [OF assms] mutations_stack_exists [OF assms(1)]
  by (simp add: mutations_delete_confirmed) (simp add: mutations_def)

theorem delete_confirmation_normalized_witness:
  "py_lower (py_strip ''YES'') = ''yes'' \<and> py_lower (py_strip '' Yes '') = ''yes''
   \<and> py_lower (py_strip ''y'') \<noteq> ''yes''
   \<and> mutations (snd (snd (cmd_delete source_config (demo_env\<lparr>input_line := (\<lambda>p w. (Inr '' Yes '', w))\<rparr>)
        ([Inr (demo_stack ''CREATE_COMPLETE'')], [])))) = [Call (DeleteStack ''gsi-export-test'')]
   \<and> mutations (snd (snd (cmd_delete source_config (demo_env\<lparr>input_line := (\<lambda>p w. (Inr ''y'', w))\<rparr>)
        ([Inr (demo_stack ''CREATE_COMPLETE'')], [])))) = []"
  using delete_confirmation_normalized [of source_config "demo_env\<lparr>input_line := (\<lambda>p w. (Inr '' Yes '', w))\<rparr>"
      "([Inr (demo_stack ''CREATE_COMPLETE'')], [])"
      "snd (stack_exists source_config (demo_env\<lparr>input_line := (\<lambda>p w. (Inr '' Yes '', w))\<rparr>) ([Inr (demo_stack ''CREATE_COMPLETE'')], []))"
      "'' Yes ''" "[]"]
    delete_confirmation_normalized [of source_config "demo_env\<lparr>input_line := (\<lambda>p w. (Inr ''y'', w))\<rparr>"
      "([Inr (demo_stack ''CREATE_COMPLETE'')], [])"
      "snd (stack_exists source_config (demo_env\<lparr>input_line := (\<lambda>p w. (Inr ''y'', w))\<rparr>) ([Inr (demo_stack ''CREATE_COMPLETE'')], []))"
      "''y''" "[]"]
  by (simp add: run_defs demo_defs norm_defs mutations_def)

section \<open>The bounded wait\<close>

lemma waiter_wait_trace:
  "\<exists>k. Suc k \<le> max 1 n \<and> snd (snd (waiter_wait env wn name d n s)) = snd s @ poll_trace name d k"
proof (induction env wn name d n s rule: waiter_wait.induct)
  case (1 env wn name d n s)
  obtain r1 s1 where c: "call (DescribeStacks name) (describe_stacks env name) s = (r1, s1)"
    by (cases "call (DescribeStacks name) (describe_stacks env name) s") auto
  have t1: "snd s1 = snd s @ [Call (DescribeStacks name)]"
    using trace_call [of "DescribeStacks name" "describe_stacks env name" s] c by simp
  show ?case
  proof (cases "acceptor env wn r1 = WRetry \<and> \<not> n \<le> 1")
    case True
    then have eq: "waiter_wait env wn name d n s =
        waiter_wait env wn name d (n - 1) (fst s1, snd s1 @ [Call (Sleep d)])"
      using c by (simp add: waiter_wait.simps [of env wn name d n s])
    from "1.IH" [OF c [symmetric]] True
    obtain k where k: "Suc k \<le> max 1 (n - 1)"
      and tr: "snd (snd (waiter_wait env wn name d (n - 1) (fst s1, snd s1 @ [Call (Sleep d)]))) =
                 snd (fst s1, snd s1 @ [Call (Sleep d)]) @ poll_trace name d k"
      by blast
    have "Suc (Suc k) \<le> max 1 n" using k True by (simp add: max_def split: if_splits)
    moreover have "snd (snd (waiter_wait env wn name d n s)) = snd s @ poll_trace name d (Suc k)"
      using eq tr t1 by (simp add: poll_trace_def)
    ultimately show ?thesis by blast
  next
    case False
    then have "snd (waiter_wait env wn name d n s) = s1"
      using c
      by (auto simp: waiter_wait.simps [of env wn name d n s] split: waiter_state.splits if_splits)
    then have "snd (snd (waiter_wait env wn name d n s)) = snd s @ poll_trace name d 0"
      using t1 by (simp add: poll_trace_def)
    then show ?thesis by (intro exI [of _ 0]) simp
  qed
qed


lemma wait_for_stack_trace:
  "\<exists>k<120. snd (snd (wait_for_stack cfg env wn s)) =
      snd s @ [Print (''  Waiting for stack '' @ wn @ ''...'')] @ poll_trace (STACK_NAME cfg) 10 k
      @ [Print (case fst (waiter_wait env wn (STACK_NAME cfg) 10 120
                        (print (''  Waiting for stack '' @ wn @ ''...'') s)) of
                  Inr u \<Rightarrow> ''  Stack '' @ wn @ '' complete.''
                | Inl e \<Rightarrow> ''  Stack operation failed: '' @ str_exn e)]"
proof -
  obtain k where k: "Suc k \<le> max 1 120"
    and tr: "snd (snd (waiter_wait env wn (STACK_NAME cfg) 10 120 (print (''  Waiting for stack '' @ wn @ ''...'') s))) =
      snd (print (''  Waiting for stack '' @ wn @ ''...'') s) @ poll_trace (STACK_NAME cfg) 10 k"
    using waiter_wait_trace by blast
  have "k < 120" using k by simp
  moreover have "snd (snd (wait_for_stack cfg env wn s)) =
      snd s @ [Print (''  Waiting for stack '' @ wn @ ''...'')] @ poll_trace (STACK_NAME cfg) 10 k
      @ [Print (case fst (waiter_wait env wn (STACK_NAME cfg) 10 120
                        (print (''  Waiting for stack '' @ wn @ ''...'') s)) of
                  Inr u \<Rightarrow> ''  Stack '' @ wn @ '' complete.''
                | Inl e \<Rightarrow> ''  Stack operation failed: '' @ str_exn e)]"
    using tr by (auto simp: wait_for_stack_def Let_def print_def split: prod.splits sum.splits)
  ultimately show ?thesis by blast
qed



section \<open>Deploy: nothing to update\<close>

lemma wait_for_stack_extends:
  "\<exists>evs. snd (snd (wait_for_stack cfg env wn s)) = snd s @ evs"
  using wait_for_stack_trace [of cfg env wn s] by auto


lemma print_outputs_other_exception:
  "describe_stacks env (STACK_NAME cfg) (fst s) = (Inl (OtherException m), w') \<Longrightarrow>
   print_outputs cfg env s =
     (Inl (OtherException m), (w', snd s @ [Call (DescribeStacks (STACK_NAME cfg))]))"
  by (simp add: print_outputs_def call_def)






section \<open>Delete: the cleanup steps\<close>

lemma delete_empty_buckets_trace:
  "snd (snd (delete_empty_buckets cfg env s)) =
     snd (snd (empty_buckets_try cfg env s)) @
     (case fst (fst (empty_buckets_try cfg env s)) of
        Inl e \<Rightarrow> [Print (''  Warning emptying buckets: '' @ str_exn e)]
      | Inr u \<Rightarrow> [])"
  by (auto simp: delete_empty_buckets_def print_def split: prod.splits sum.splits)

lemma delete_empty_buckets_outputs:
  "describe_stacks env (STACK_NAME cfg) (fst s) = (Inr stk, w1) \<Longrightarrow>
   fst (delete_empty_buckets cfg env s) = Some (outputs_dict stk)"
  by (auto simp: delete_empty_buckets_def empty_buckets_try_def call_def Let_def
      simp del: empty_buckets.simps split: prod.splits sum.splits)

lemma delete_empty_buckets_describe_failed:
  "describe_stacks env (STACK_NAME cfg) (fst s) = (Inl e, w1) \<Longrightarrow>
   delete_empty_buckets cfg env s =
     (None, (w1, snd s @ [Call (DescribeStacks (STACK_NAME cfg)),
                          Print (''  Warning emptying buckets: '' @ str_exn e)]))"
  by (simp add: delete_empty_buckets_def empty_buckets_try_def call_def print_def)

lemma delete_workgroup_entered:
  "\<exists>mid. snd (delete_workgroup env outputs s1) = snd s1 @ [Call AthenaClient] @ mid"
  by (auto simp: delete_workgroup_def workgroup_try_def call_def print_def
      split: prod.splits sum.splits option.splits)

lemma delete_workgroup_unbound:
  "athena_client env (fst s1) = (Inr (), w2) \<Longrightarrow>
   delete_workgroup env None s1 =
     (w2, snd s1 @ [Call AthenaClient,
        Print (''  Warning deleting workgroup: '' @ str_exn (unbound_local ''outputs''))])"
  by (simp add: delete_workgroup_def workgroup_try_def call_def print_def)

lemma delete_workgroup_present:
  "outputs = Some d \<Longrightarrow> d ''AthenaWorkgroup'' = Some wg \<Longrightarrow> wg \<noteq> [] \<Longrightarrow>
   athena_client env (fst s1) = (Inr (), w2) \<Longrightarrow>
   \<exists>tail. snd (delete_workgroup env outputs s1) =
     snd s1 @ [Call AthenaClient, Print (''  Deleting Athena workgroup: '' @ wg),
               Call (DeleteWorkGroup wg True)] @ tail"
  by (auto simp: delete_workgroup_def workgroup_try_def call_def print_def
      split: prod.splits sum.splits option.splits)

lemma delete_confirmed_trace:
  "\<exists>rest. snd (snd (delete_confirmed cfg env s)) =
     snd (delete_workgroup env (fst (delete_empty_buckets cfg env s))
            (snd (delete_empty_buckets cfg env s)))
     @ [Call (DeleteStack (STACK_NAME cfg))] @ rest"
proof -
  obtain outs s1 where e: "delete_empty_buckets cfg env s = (outs, s1)"
    by (cases "delete_empty_buckets cfg env s") auto
  let ?s2 = "delete_workgroup env outs s1"
  obtain r3 s3 where c: "call (DeleteStack (STACK_NAME cfg)) (delete_stack env (STACK_NAME cfg)) ?s2 = (r3, s3)"
    by (cases "call (DeleteStack (STACK_NAME cfg)) (delete_stack env (STACK_NAME cfg)) ?s2") auto
  have t3: "snd s3 = snd ?s2 @ [Call (DeleteStack (STACK_NAME cfg))]"
    using trace_call [of "DeleteStack (STACK_NAME cfg)" "delete_stack env (STACK_NAME cfg)" ?s2] c
    by simp
  show ?thesis
  proof (cases r3)
    case (Inl err)
    then have "snd (delete_confirmed cfg env s) = s3"
      using e c by (simp add: delete_confirmed_def Let_def)
    then show ?thesis using t3 e by simp
  next
    case (Inr u)
    obtain evs where w: "snd (snd (wait_for_stack cfg env ''stack_delete_complete'' s3)) = snd s3 @ evs"
      using wait_for_stack_extends by blast
    have "\<exists>last. snd (snd (delete_confirmed cfg env s)) =
            snd (snd (wait_for_stack cfg env ''stack_delete_complete'' s3)) @ [Print last]"
      using e c Inr
      by (auto simp: delete_confirmed_def Let_def print_def split: prod.splits)
    then show ?thesis using w t3 e by auto
  qed
qed

text \<open>
  Claim C5. Once the delete is confirmed: whatever the bucket-emptying block raises
  (its describe call included) is caught and logged by one \<open>Warning emptying buckets\<close>
  line; the workgroup block is entered all the same (its first action, obtaining the
  Athena client, always follows); and \<open>delete_stack\<close> is called right after the
  workgroup block, whatever that block did. \<open>outputs\<close> is bound as soon as the describe
  call has answered, however the rest of the bucket block ends, and then a workgroup
  named in the outputs is deleted. (When the describe call itself raises, \<open>outputs\<close> was
  never assigned: the workgroup block is entered, fails on reading it and logs its own
  warning, \<open>delete_workgroup_unbound\<close>, and \<open>delete_stack\<close> is still called.)
\<close>

theorem delete_cleanup_fault_isolated:
  "snd (snd (delete_empty_buckets cfg env s)) =
      snd (snd (empty_buckets_try cfg env s)) @
      (case fst (fst (empty_buckets_try cfg env s)) of
         Inl e \<Rightarrow> [Print (''  Warning emptying buckets: '' @ str_exn e)]
       | Inr u \<Rightarrow> [])
   \<and> (\<exists>mid. snd (delete_workgroup env outputs s1) = snd s1 @ [Call AthenaClient] @ mid)
   \<and> (\<exists>rest. snd (snd (delete_confirmed cfg env s)) =
         snd (delete_workgroup env (fst (delete_empty_buckets cfg env s))
                (snd (delete_empty_buckets cfg env s)))
         @ [Call (DeleteStack (STACK_NAME cfg))] @ rest)
   \<and> (describe_stacks env (STACK_NAME cfg) (fst s) = (Inr stk, w1) \<longrightarrow>
         fst (delete_empty_buckets cfg env s) = Some (outputs_dict stk))
   \<and> (outputs = Some d \<longrightarrow> d ''AthenaWorkgroup'' = Some wg \<longrightarrow> wg \<noteq> [] \<longrightarrow>
       athena_client env (fst s1) = (Inr (), w2) \<longrightarrow>
         (\<exists>tail. snd (delete_workgroup env outputs s1) =
            snd s1 @ [Call AthenaClient, Print (''  Deleting Athena workgroup: '' @ wg),
                      Call (DeleteWorkGroup wg True)] @ tail))"
  using delete_empty_buckets_trace [of cfg env s] delete_workgroup_entered [of env outputs s1]
    delete_confirmed_trace [of cfg env s] delete_empty_buckets_outputs [of env cfg s stk w1]
    delete_workgroup_present [of outputs d wg env s1 w2]
  by blast

theorem delete_cleanup_fault_isolated_witness:
  "delete_confirmed source_config failing_s3 ([Inr (demo_stack ''CREATE_COMPLETE'')], []) =
     (Returned,
      ([], [Call (DescribeStacks ''gsi-export-test''), Call S3Resource,
            Print ''  Emptying bucket: gsi-export-test-123456789012'',
            Call (ObjectsDelete ''gsi-export-test-123456789012''),
            Print ''  Warning emptying buckets: AccessDenied'',
            Call AthenaClient,
            Print ''  Deleting Athena workgroup: gsi-export-wg'',
            Call (DeleteWorkGroup ''gsi-export-wg'' True),
            Call (DeleteStack ''gsi-export-test''),
            Print ''  Waiting for stack stack_delete_complete...'',
            Call (DescribeStacks ''gsi-export-test''),
            Print ''  Stack stack_delete_complete complete.'',
            Print ''  Stack deleted successfully.'']))"
  using delete_cleanup_fault_isolated [of source_config failing_s3
      "([Inr (demo_stack ''CREATE_COMPLETE'')], [])"
      "Some (outputs_dict (demo_stack ''CREATE_COMPLETE''))"
      "snd (delete_empty_buckets source_config failing_s3 ([Inr (demo_stack ''CREATE_COMPLETE'')], []))"
      "demo_stack ''CREATE_COMPLETE''" "[]"
      "outputs_dict (demo_stack ''CREATE_COMPLETE'')" "''gsi-export-wg''" "[]"]
  by (simp add: failing_s3_def delete_defs run_defs demo_defs waiter_wait.simps)

section \<open>Deploy: a wait that fails\<close>










section \<open>Exit codes\<close>






lemma main_invalid:
  "length argv < 2 \<or> argv ! 1 \<notin> set COMMANDS \<Longrightarrow> argv = prog # rest \<Longrightarrow>
   main cfg env argv s = (SysExit 1, (fst s, snd s @ map Print (usage_lines prog)))"
  by (auto simp: main_def print_all_def)





end
